theory Spec2Isabelle
  imports Main "HOL-Library.AList" "HOL-Library.Multiset"
begin

section \<open>Python values shared by the driver's modules\<close>

text \<open>
  Exceptions are values. The driver raises the generic \<^verbatim>\<open>Exception\<close> itself
  (with a message); \<^verbatim>\<open>ValueError\<close>, \<^verbatim>\<open>IndexError\<close> and \<^verbatim>\<open>KeyError\<close> come from
  the Python operations it uses (tuple unpacking, indexing, dictionary lookup, parsing).
  A call that returns is \<open>Inr\<close>, a call that raises is \<open>Inl\<close>.
\<close>

datatype error = ValueError | IndexError | KeyError | GenericException string

text \<open>
  \<^verbatim>\<open>str.split( sep )\<close> with a one-character separator: the string is cut at every
  occurrence of the separator, so a string with \<open>n\<close> separators gives \<open>n + 1\<close> fields
  (the empty string gives one empty field).
\<close>

fun split :: "char \<Rightarrow> string \<Rightarrow> string list" where
  "split sep [] = [[]]"
| "split sep (c # cs) =
     (if c = sep then [] # split sep cs
      else (case split sep cs of
              [] \<Rightarrow> [[c]]
            | w # ws \<Rightarrow> (c # w) # ws))"

text \<open>\<^verbatim>\<open>str.startswith( prefix )\<close>.\<close>

definition startswith :: "string \<Rightarrow> string \<Rightarrow> bool" where
  "startswith s pre = (take (length pre) s = pre)"

text \<open>
  \<^verbatim>\<open>str.upper()\<close> and \<^verbatim>\<open>str.lower()\<close> on ASCII text, which is what securities
  identifiers are: the twenty-six letters change case, every other ASCII character
  stays. Python maps characters beyond ASCII by the Unicode tables, which these two
  functions do not follow: what is proved of them is stated for strings whose
  characters satisfy \<open>is_ascii\<close>.
\<close>

definition is_ascii :: "char \<Rightarrow> bool" where
  "is_ascii c = (of_char c < (128 :: nat))"

definition upper_char :: "char \<Rightarrow> char" where
  "upper_char c =
     (case map_of (zip ''abcdefghijklmnopqrstuvwxyz'' ''ABCDEFGHIJKLMNOPQRSTUVWXYZ'') c of
        Some u \<Rightarrow> u
      | None \<Rightarrow> c)"

definition lower_char :: "char \<Rightarrow> char" where
  "lower_char c =
     (case map_of (zip ''ABCDEFGHIJKLMNOPQRSTUVWXYZ'' ''abcdefghijklmnopqrstuvwxyz'') c of
        Some l \<Rightarrow> l
      | None \<Rightarrow> c)"

definition upper :: "string \<Rightarrow> string" where
  "upper s = map upper_char s"

definition lower :: "string \<Rightarrow> string" where
  "lower s = map lower_char s"

section \<open>ctpUtil: identifiers\<close>

text \<open>
  \<^verbatim>\<open>getCtpInstId\<close>. The tuple assignment \<^verbatim>\<open>instId, exch = secId.split( '.' )\<close>
  raises \<^verbatim>\<open>ValueError\<close> unless the split gives exactly two fields.
\<close>

definition getCtpInstId :: "string \<Rightarrow> error + string" where
  "getCtpInstId secId =
     (case split CHR ''.'' secId of
        [instId, exch] \<Rightarrow>
          if startswith exch ''XZCE'' \<or> startswith exch ''CCFX''
          then Inr (upper instId)
          else Inr (lower instId)
      | _ \<Rightarrow> Inl ValueError)"

text \<open>
  \<^verbatim>\<open>getCtpExch\<close>. \<^verbatim>\<open>secId.split( '.' )[ 1 ]\<close> raises \<^verbatim>\<open>IndexError\<close> when there
  is no second field; the result is the second character of that field, or the empty
  string when the field is shorter than two characters.
\<close>

definition getCtpExch :: "string \<Rightarrow> error + string" where
  "getCtpExch secId =
     (case split CHR ''.'' secId of
        _ # secIdCmp # _ \<Rightarrow>
          Inr (if length secIdCmp > 1 then [secIdCmp ! 1] else [])
      | _ \<Rightarrow> Inl IndexError)"

section \<open>ctpOrder and ctpUtil: orders\<close>

text \<open>
  Modelled from the spec: the generic order class \<^verbatim>\<open>execution.order.Order\<close> is imported
  by the driver but is not part of it. The spec gives an order a side (BUY or SELL), a
  price type (LIMIT, MARKET, or others) and an offset (OPEN, CLOSE, CLOSE_TODAY); the
  class constants \<^verbatim>\<open>BUY\<close>, \<^verbatim>\<open>MARKET_ORDER\<close>, \<^verbatim>\<open>CLOSE\<close> and \<^verbatim>\<open>CLOSE_TODAY\<close> that
  \<^verbatim>\<open>convertToCtpOrder\<close> compares against are the constructors below. Prices and
  volumes are Python integers.
\<close>

datatype side = BUY | SELL

datatype price_type = LIMIT_ORDER | MARKET_ORDER | OTHER_PRICE_TYPE nat

datatype offset = OPEN | CLOSE | CLOSE_TODAY

record order =
  secId :: string
  side :: side
  volume :: int
  price :: int
  priceType :: price_type
  offset :: offset

text \<open>The class constants of \<^verbatim>\<open>CTPOrder\<close> that the conversion uses (ASCII codes).\<close>

definition OFFSET_OPEN :: nat where "OFFSET_OPEN = 48"
definition OFFSET_CLOSE :: nat where "OFFSET_CLOSE = 49"
definition OFFSET_CLOSE_TODAY :: nat where "OFFSET_CLOSE_TODAY = 51"

definition DIRECTION_BUY :: nat where "DIRECTION_BUY = 48"
definition DIRECTION_SELL :: nat where "DIRECTION_SELL = 49"

definition PRICE_ANY_PRICE :: nat where "PRICE_ANY_PRICE = 49"
definition PRICE_LIMIT_PRICE :: nat where "PRICE_LIMIT_PRICE = 50"
definition PRICE_BEST_PRICE :: nat where "PRICE_BEST_PRICE = 51"

text \<open>\<^verbatim>\<open>CTPOrder\<close>: the fields its constructor sets.\<close>

record ctp_order =
  ctp_instId :: string
  ctp_exch :: string
  ctp_side :: nat
  ctp_volume :: int
  ctp_priceType :: nat
  ctp_price :: int
  ctp_offsetFlag :: nat

text \<open>
  \<^verbatim>\<open>convertToCtpOrder\<close>. The two identifier helpers run first and their exceptions
  propagate. A market order gets a limit price \<open>100\<close> above the requested price when the
  native side is buy, and \<open>max( 1, price - 100 )\<close> otherwise. The native price type is
  assigned once, unconditionally.
\<close>

definition convertToCtpOrder :: "order \<Rightarrow> error + ctp_order" where
  "convertToCtpOrder ord =
     (case getCtpInstId (secId ord) of
        Inl e \<Rightarrow> Inl e
      | Inr instId \<Rightarrow>
          (case getCtpExch (secId ord) of
             Inl e \<Rightarrow> Inl e
           | Inr exch \<Rightarrow>
               let sd = (if side ord = BUY then DIRECTION_BUY else DIRECTION_SELL);
                   vol = volume ord;
                   pr = (if priceType ord = MARKET_ORDER
                         then (if sd = DIRECTION_BUY then price ord + 100
                               else max 1 (price ord - 100))
                         else price ord);
                   off = (if offset ord = CLOSE then OFFSET_CLOSE
                          else if offset ord = CLOSE_TODAY then OFFSET_CLOSE_TODAY
                          else OFFSET_OPEN)
               in Inr \<lparr>ctp_instId = instId, ctp_exch = exch, ctp_side = sd,
                        ctp_volume = vol, ctp_priceType = PRICE_LIMIT_PRICE,
                        ctp_price = pr, ctp_offsetFlag = off\<rparr>))"

section \<open>ctpDataPublisher: the subscription registry and the fan-out\<close>

text \<open>
  A subscriber is an object of the caller (\<^verbatim>\<open>datafeed.subscriber.Subscriber\<close>); the
  publisher only calls its three methods. \<open>subscriberRef\<close> is the object's identity:
  Python hashes and compares such objects by identity, and two records with different
  references are different values here. \<open>getSubscribedTopics\<close> and
  \<open>getSubscribedDataFields\<close> are what the methods of these names return; \<open>None\<close>
  is Python's \<^verbatim>\<open>None\<close>. The third method, \<^verbatim>\<open>onData\<close>, is the delivery entry point:
  a call of it is recorded as a pair of the subscriber and the batch it was given.
\<close>

record subscriber =
  subscriberRef :: nat
  getSubscribedTopics :: "string list"
  getSubscribedDataFields :: "string list option"

text \<open>
  The publisher's fields. \<open>subscribers\<close> is the dictionary from identifiers to
  subscribers, kept as an association list because \<^verbatim>\<open>connect\<close> iterates over it;
  the other two dictionaries are only looked up. A Python set of subscribers is a list:
  \<^verbatim>\<open>add\<close> is \<open>List.insert\<close>, which leaves the list alone when the element is there.
\<close>

record publisher =
  subscribers :: "(nat \<times> subscriber) list"
  secIds :: "string \<rightharpoonup> string"
  topicsToSubscribers :: "string \<rightharpoonup> subscriber list"
  nextId :: nat

text \<open>The state \<^verbatim>\<open>__init__\<close> leaves (the configuration and the login apart).\<close>

definition CTPDataPublisher_init :: publisher where
  "CTPDataPublisher_init =
     \<lparr>subscribers = [], secIds = Map.empty, topicsToSubscribers = Map.empty, nextId = 1\<rparr>"

text \<open>
  The body of the loop over the topics in \<^verbatim>\<open>addSubscriber\<close>: create the topic's set
  when the topic is new, then add the subscriber object to it.
\<close>

definition addTopic ::
  "subscriber \<Rightarrow> string \<Rightarrow> (string \<rightharpoonup> subscriber list) \<Rightarrow> (string \<rightharpoonup> subscriber list)" where
  "addTopic subscriber topic m =
     (case m topic of
        None \<Rightarrow> m(topic \<mapsto> List.insert subscriber [])
      | Some ss \<Rightarrow> m(topic \<mapsto> List.insert subscriber ss))"

text \<open>
  \<^verbatim>\<open>addSubscriber\<close>. The argument is \<open>None\<close> for Python's \<^verbatim>\<open>None\<close>. The function has
  no \<^verbatim>\<open>raise\<close>: with \<^verbatim>\<open>None\<close> it returns \<^verbatim>\<open>None\<close> as the identifier.
\<close>

definition addSubscriber ::
  "publisher \<Rightarrow> subscriber option \<Rightarrow> (error + nat option) \<times> publisher" where
  "addSubscriber p sub =
     (case sub of
        Some subscriber \<Rightarrow>
          let subId = nextId p
          in (Inr (Some subId),
              p\<lparr>nextId := nextId p + 1,
                subscribers := AList.update subId subscriber (subscribers p),
                topicsToSubscribers :=
                  fold (addTopic subscriber) (getSubscribedTopics subscriber)
                    (topicsToSubscribers p)\<rparr>)
      | None \<Rightarrow> (Inr None, p))"

text \<open>
  The loop over the topics in \<^verbatim>\<open>removeSubscriber\<close>:
  \<^verbatim>\<open>self.topicsToSubscribers[ topic ] -= { subscriber, }\<close> raises \<^verbatim>\<open>KeyError\<close> when the
  topic has no entry, and the entries changed before stay changed.
\<close>

fun removeTopics ::
  "subscriber \<Rightarrow> string list \<Rightarrow> (string \<rightharpoonup> subscriber list)
     \<Rightarrow> error option \<times> (string \<rightharpoonup> subscriber list)" where
  "removeTopics subscriber [] m = (None, m)"
| "removeTopics subscriber (topic # ts) m =
     (case m topic of
        None \<Rightarrow> (Some KeyError, m)
      | Some ss \<Rightarrow> removeTopics subscriber ts (m(topic \<mapsto> removeAll subscriber ss)))"

text \<open>\<^verbatim>\<open>removeSubscriber\<close>.\<close>

definition removeSubscriber ::
  "publisher \<Rightarrow> nat \<Rightarrow> (error + subscriber) \<times> publisher" where
  "removeSubscriber p subscriberId =
     (case map_of (subscribers p) subscriberId of
        None \<Rightarrow> (Inl (GenericException ''Requested subscriber does not exist.''), p)
      | Some subscriber \<Rightarrow>
          let p1 = p\<lparr>subscribers := AList.delete subscriberId (subscribers p)\<rparr>
          in (case removeTopics subscriber (getSubscribedTopics subscriber)
                     (topicsToSubscribers p1) of
                (Some e, m) \<Rightarrow> (Inl e, p1\<lparr>topicsToSubscribers := m\<rparr>)
              | (None, m) \<Rightarrow> (Inr subscriber, p1\<lparr>topicsToSubscribers := m\<rparr>)))"

text \<open>
  The reverse-index lookup of \<^verbatim>\<open>notifyAll\<close>,
  \<^verbatim>\<open>self.topicsToSubscribers.get( secId, set() )\<close>: the topic's set of subscriber
  objects, empty when the topic has no entry.
\<close>

definition subscribersFor :: "publisher \<Rightarrow> string \<Rightarrow> subscriber list" where
  "subscribersFor p topic =
     (case topicsToSubscribers p topic of None \<Rightarrow> [] | Some ss \<Rightarrow> ss)"

text \<open>
  \<^verbatim>\<open>notifyAll\<close>. A batch is a data frame indexed by securities identifier: a list of
  rows, each with its index. \<^verbatim>\<open>set( data.index )\<close> is the list of distinct indices.
  The union is accumulated with \<open>List.union\<close>, which adds to the accumulator only the
  elements it lacks. The result is the list of \<^verbatim>\<open>onData\<close> calls made, in the order of
  the model's iteration (Python fixes none); the delivery entry points are taken to
  return.
\<close>

definition notifyAll ::
  "publisher \<Rightarrow> (string \<times> 'row) list \<Rightarrow> (subscriber \<times> (string \<times> 'row) list) list" where
  "notifyAll p data =
     (let ids = remdups (map fst data);
          subs = fold (\<lambda>secId acc. List.union (subscribersFor p secId) acc) ids []
      in if length subs > 0 then map (\<lambda>s. (s, data)) subs else [])"

text \<open>
  The receive loop of \<^verbatim>\<open>receiveDatafeed\<close>, run on the messages the socket hands over
  (already decoded), in order. When they are used up the loop is blocked in
  \<^verbatim>\<open>recv\<close> (\<open>Receiving\<close>); an exception ends the loop and the thread
  (\<open>Terminated\<close>).
\<close>

datatype loop_outcome = Receiving | Terminated error

text \<open>
  \<^verbatim>\<open>datetime.strptime\<close> with the fixed format and \<^verbatim>\<open>float\<close> are library functions:
  they are parameters, \<open>None\<close> where the library raises \<^verbatim>\<open>ValueError\<close>. The tuple
  assignment \<^verbatim>\<open>instId, tradeDatetime, price = raw.split( ',' )\<close> raises
  \<^verbatim>\<open>ValueError\<close> unless there are exactly three fields. The list \<^verbatim>\<open>data\<close> is a
  literal of three entries, so \<^verbatim>\<open>len( data )\<close> is \<open>3\<close>. The result is the
  \<^verbatim>\<open>onData\<close> calls made, the warnings logged, and how the loop stands.
\<close>

fun receiveDatafeed ::
  "(string \<Rightarrow> 'time option) \<Rightarrow> (string \<Rightarrow> 'num option) \<Rightarrow> publisher \<Rightarrow> string list
     \<Rightarrow> (subscriber \<times> (string \<times> 'time \<times> 'num) list) list \<times> string list \<times> loop_outcome" where
  "receiveDatafeed strptime float p [] = ([], [], Receiving)"
| "receiveDatafeed strptime float p (raw # rest) =
     (let cols = [''secId'', ''tradeDate'', ''price'']
      in case split CHR '','' raw of
           [instId, tradeDatetime, priceField] \<Rightarrow>
             (case strptime tradeDatetime of
                None \<Rightarrow> ([], [], Terminated ValueError)
              | Some d \<Rightarrow>
                  (case float priceField of
                     None \<Rightarrow> ([], [], Terminated ValueError)
                   | Some x \<Rightarrow>
                       let extId = (case secIds p instId of Some ext \<Rightarrow> ext | None \<Rightarrow> instId);
                           len_data = (3 :: nat)
                       in if len_data = length cols
                          then (case receiveDatafeed strptime float p rest of
                                  (calls, warnings, out) \<Rightarrow>
                                    (notifyAll p [(extId, (d, x))] @ calls, warnings, out))
                          else (case receiveDatafeed strptime float p rest of
                                  (calls, warnings, out) \<Rightarrow>
                                    (calls,
                                     (''Received data '' @ raw @ '' which is not enough to use.'')
                                       # warnings,
                                     out))))
         | _ \<Rightarrow> ([], [], Terminated ValueError))"

text \<open>
  The dictionary comprehension of \<^verbatim>\<open>connect\<close>,
  \<^verbatim>\<open>dict( ( ctpUtil.getCtpInstId( tt ), tt ) for tt in t )\<close>: a later topic with the
  same native identifier replaces an earlier one, and an exception of
  \<^verbatim>\<open>getCtpInstId\<close> propagates.
\<close>

fun ctpTopics :: "(string \<rightharpoonup> string) \<Rightarrow> string list \<Rightarrow> error + (string \<rightharpoonup> string)" where
  "ctpTopics m [] = Inr m"
| "ctpTopics m (tt # ts) =
     (case getCtpInstId tt of
        Inl e \<Rightarrow> Inl e
      | Inr k \<Rightarrow> ctpTopics (m(k \<mapsto> tt)) ts)"

text \<open>
  The summarising loop of \<^verbatim>\<open>connect\<close> over \<^verbatim>\<open>self.subscribers.items()\<close>, from the
  current \<^verbatim>\<open>self.secIds\<close> and the current \<^verbatim>\<open>fields\<close> (\<open>None\<close> is Python's
  \<^verbatim>\<open>None\<close>, logged as ALL). The result is the exception, if one ended the loop, and the
  two variables as the loop leaves them.
\<close>

fun connect_summarise ::
  "(nat \<times> subscriber) list \<Rightarrow> (string \<rightharpoonup> string) \<Rightarrow> string set option
     \<Rightarrow> error option \<times> (string \<rightharpoonup> string) \<times> string set option" where
  "connect_summarise [] ids flds = (None, ids, flds)"
| "connect_summarise ((_, s) # rest) ids flds =
     (let t = getSubscribedTopics s;
          f = getSubscribedDataFields s
      in case ctpTopics Map.empty t of
           Inl e \<Rightarrow> (Some e, ids, flds)
         | Inr ct \<Rightarrow>
             connect_summarise rest (ids ++ ct)
               (case (f, flds) of
                  (Some fs, Some acc) \<Rightarrow> Some (acc \<union> set fs)
                | _ \<Rightarrow> None))"

text \<open>
  \<^verbatim>\<open>connect\<close> up to the point where it hands the topics to the market-data API: the
  topics (the keys of \<^verbatim>\<open>self.secIds\<close>) and the fields it logs, and the publisher with
  \<^verbatim>\<open>self.secIds\<close> updated.
\<close>

definition connect ::
  "publisher \<Rightarrow> (error + string set \<times> string set option) \<times> publisher" where
  "connect p =
     (case connect_summarise (subscribers p) (secIds p) (Some {}) of
        (Some e, ids, flds) \<Rightarrow> (Inl e, p\<lparr>secIds := ids\<rparr>)
      | (None, ids, flds) \<Rightarrow> (Inr (dom ids, flds), p\<lparr>secIds := ids\<rparr>))"

section \<open>ctpExecutionEngine\<close>

text \<open>\<^verbatim>\<open>CTPOrderId\<close> and \<^verbatim>\<open>CTPOrderStatus\<close>: the fields their constructors set.\<close>

record ctp_order_id =
  oid_instId :: string
  oid_exchange :: string
  oid_orderId :: nat

record ctp_order_status =
  sessionId :: int
  status :: nat

text \<open>
  The engine's fields that concern orders: the dictionary \<^verbatim>\<open>executedOrders\<close>, which
  \<^verbatim>\<open>__init__\<close> creates empty, and the counter \<^verbatim>\<open>nextId\<close>, which starts at one.
\<close>

record engine =
  executedOrders :: "nat \<rightharpoonup> ctp_order_status"
  engine_nextId :: nat

definition CTPExecutionEngine_init :: engine where
  "CTPExecutionEngine_init = \<lparr>executedOrders = Map.empty, engine_nextId = 1\<rparr>"

text \<open>
  \<^verbatim>\<open>placeOrder\<close>: the counter is advanced before the conversion, whose exception
  propagates. The third component is the call of \<^verbatim>\<open>ctptrader.placeOrder\<close> made, if
  any: the native order and the identifier submitted with it.
\<close>

definition placeOrder ::
  "engine \<Rightarrow> order \<Rightarrow> (error + ctp_order_id) \<times> engine \<times> (ctp_order \<times> nat) list" where
  "placeOrder e ord =
     (let orderId = engine_nextId e;
          e1 = e\<lparr>engine_nextId := engine_nextId e + 1\<rparr>
      in case convertToCtpOrder ord of
           Inl err \<Rightarrow> (Inl err, e1, [])
         | Inr ctpOrderObj \<Rightarrow>
             (Inr \<lparr>oid_instId = secId ord, oid_exchange = ctp_exch ctpOrderObj,
                    oid_orderId = orderId\<rparr>,
              e1, [(ctpOrderObj, orderId)]))"

text \<open>
  \<^verbatim>\<open>queryStatus\<close>: the body is the docstring alone, so the call returns \<^verbatim>\<open>None\<close>
  (\<open>Inr None\<close>) whatever the identifier, and reads nothing.
\<close>

definition queryStatus :: "engine \<Rightarrow> ctp_order_id \<Rightarrow> error + ctp_order_status option" where
  "queryStatus e orderId = Inr None"

text \<open>
  The arguments of the order-return callback, and the callback \<^verbatim>\<open>_onOrderReturn\<close>:
  its body is the docstring alone, so the engine is as it was.
\<close>

record order_return =
  orderRefId :: string
  notifySeq :: int
  orderStatus :: int
  volumeTraded :: int
  volumeTotal :: int
  seqNo :: int

definition onOrderReturn :: "engine \<Rightarrow> order_return \<Rightarrow> engine" where
  "onOrderReturn e r = e"

section \<open>Registries the publisher can be in\<close>

text \<open>
  The publisher states that arise from the state \<^verbatim>\<open>__init__\<close> leaves by calls of
  \<^verbatim>\<open>addSubscriber\<close>, \<^verbatim>\<open>removeSubscriber\<close> and \<^verbatim>\<open>connect\<close>, whatever they return.
\<close>

inductive reachable :: "publisher \<Rightarrow> bool" where
  init: "reachable CTPDataPublisher_init"
| add: "reachable p \<Longrightarrow> reachable (snd (addSubscriber p sub))"
| remove: "reachable p \<Longrightarrow> reachable (snd (removeSubscriber p subscriberId))"
| conn: "reachable p \<Longrightarrow> reachable (snd (connect p))"

section \<open>Facts about splitting\<close>

lemma split_no_sep: "sep \<notin> set s \<Longrightarrow> split sep s = [s]"
  by (induction s) auto

lemma split_append_sep:
  "sep \<notin> set a \<Longrightarrow> split sep (a @ sep # b) = a # split sep b"
  by (induction a) auto

lemma split_not_Nil: "split sep s \<noteq> []"
  by (induction s) (auto split: list.splits)

lemma getCtpInstId_returns_iff:
  "(\<exists>i. getCtpInstId s = Inr i) \<longleftrightarrow> length (split CHR ''.'' s) = 2"
  by (auto simp: getCtpInstId_def split: list.splits)

section \<open>The identifier mapper\<close>

text \<open>
  C9. For an identifier \<open>SYMBOL.SUFFIX\<close> of ASCII characters (one dot, between the
  two parts), \<^verbatim>\<open>getCtpInstId\<close> returns the symbol in upper case when the suffix
  starts with \<open>XZCE\<close> or \<open>CCFX\<close>, and in lower case for every other suffix.
\<close>

theorem getCtpInstId_case_rule:
  assumes "CHR ''.'' \<notin> set instr" and "CHR ''.'' \<notin> set suffix"
    and "\<forall>c \<in> set (instr @ suffix). is_ascii c"
  shows "getCtpInstId (instr @ ''.'' @ suffix) =
           Inr (if startswith suffix ''XZCE'' \<or> startswith suffix ''CCFX''
                then upper instr else lower instr)"
  using assms(1,2) by (simp add: getCtpInstId_def split_append_sep split_no_sep)

theorem getCtpInstId_case_rule_witness:
  "getCtpInstId ''IF1909.CCFX'' = Inr ''IF1909'' \<and> getCtpInstId ''cu1909.XSHG'' = Inr ''cu1909''
   \<and> getCtpInstId ''sr909.XZCE'' = Inr ''SR909'' \<and> getCtpInstId ''RB1910.XSGE'' = Inr ''rb1910''"
proof -
  have a: "\<forall>c \<in> set (''IF1909'' @ ''CCFX''). is_ascii c" by (simp add: is_ascii_def)
  have b: "\<forall>c \<in> set (''cu1909'' @ ''XSHG''). is_ascii c" by (simp add: is_ascii_def)
  have c: "\<forall>c \<in> set (''sr909'' @ ''XZCE''). is_ascii c" by (simp add: is_ascii_def)
  have d: "\<forall>c \<in> set (''RB1910'' @ ''XSGE''). is_ascii c" by (simp add: is_ascii_def)
  show ?thesis
    using getCtpInstId_case_rule [OF _ _ a] getCtpInstId_case_rule [OF _ _ b]
          getCtpInstId_case_rule [OF _ _ c] getCtpInstId_case_rule [OF _ _ d]
    by (simp add: startswith_def upper_def lower_def upper_char_def lower_char_def)
qed

section \<open>The order conversion\<close>

text \<open>
  C4. For a market order, \<^verbatim>\<open>convertToCtpOrder\<close> returns a native order whose limit
  price is the requested price plus \<open>100\<close> for a buy, and the larger of \<open>1\<close> and the
  requested price minus \<open>100\<close> for a sell (the offset \<open>K\<close> is the literal \<open>100\<close> and
  the minimum price the literal \<open>1\<close>). The conversion raises only when the securities
  identifier does not split into two parts at the dot.
\<close>

theorem convertToCtpOrder_market_price:
  assumes "priceType ord = MARKET_ORDER"
  shows "case convertToCtpOrder ord of
           Inr c \<Rightarrow> ctp_price c = (if side ord = BUY then price ord + 100
                                   else max 1 (price ord - 100))
         | Inl e \<Rightarrow> length (split CHR ''.'' (secId ord)) \<noteq> 2"
  using assms
  by (auto simp: convertToCtpOrder_def getCtpInstId_def getCtpExch_def Let_def
                 DIRECTION_BUY_def DIRECTION_SELL_def
           split: sum.splits list.splits)

theorem convertToCtpOrder_market_price_witness:
  "(\<exists>c. convertToCtpOrder \<lparr>secId = ''rb1910.XSGE'', side = BUY, volume = 1, price = 100,
                              priceType = MARKET_ORDER, offset = OPEN\<rparr> = Inr c
         \<and> ctp_price c = 200)
   \<and> (\<exists>c. convertToCtpOrder \<lparr>secId = ''rb1910.XSGE'', side = SELL, volume = 1, price = 100,
                              priceType = MARKET_ORDER, offset = OPEN\<rparr> = Inr c
         \<and> ctp_price c = 1)"
  using convertToCtpOrder_market_price
          [of "\<lparr>secId = ''rb1910.XSGE'', side = BUY, volume = 1, price = 100,
                 priceType = MARKET_ORDER, offset = OPEN\<rparr>"]
        convertToCtpOrder_market_price
          [of "\<lparr>secId = ''rb1910.XSGE'', side = SELL, volume = 1, price = 100,
                 priceType = MARKET_ORDER, offset = OPEN\<rparr>"]
  by (auto split: sum.splits)

text \<open>
  C10. Whatever the price type of the order, the native order that
  \<^verbatim>\<open>convertToCtpOrder\<close> returns has the price type \<^verbatim>\<open>PRICE_LIMIT_PRICE\<close> (the
  code \<open>50\<close>); the conversion raises only when the securities identifier does not
  split into two parts at the dot.
\<close>

theorem convertToCtpOrder_always_limit:
  "case convertToCtpOrder ord of
     Inr c \<Rightarrow> ctp_priceType c = PRICE_LIMIT_PRICE \<and> ctp_priceType c = 50
   | Inl e \<Rightarrow> length (split CHR ''.'' (secId ord)) \<noteq> 2"
  by (auto simp: convertToCtpOrder_def getCtpInstId_def getCtpExch_def Let_def
                 PRICE_LIMIT_PRICE_def
           split: sum.splits list.splits)

theorem convertToCtpOrder_always_limit_witness:
  "(\<exists>c. convertToCtpOrder \<lparr>secId = ''IF1909.CCFX'', side = SELL, volume = 2, price = 3800,
                              priceType = OTHER_PRICE_TYPE 3, offset = CLOSE\<rparr> = Inr c
         \<and> ctp_priceType c = 50)"
  using convertToCtpOrder_always_limit
          [of "\<lparr>secId = ''IF1909.CCFX'', side = SELL, volume = 2, price = 3800,
                 priceType = OTHER_PRICE_TYPE 3, offset = CLOSE\<rparr>"]
  by (auto split: sum.splits)

section \<open>The subscription registry\<close>

lemma addTopic_lookup:
  "addTopic s topic m t =
     (if t = topic then Some (List.insert s (case m t of None \<Rightarrow> [] | Some ss \<Rightarrow> ss)) else m t)"
  by (simp add: addTopic_def split: option.splits)

lemma fold_addTopic_lookup:
  "fold (addTopic s) ts m t =
     (if t \<in> set ts then Some (List.insert s (case m t of None \<Rightarrow> [] | Some ss \<Rightarrow> ss)) else m t)"
proof (induction ts arbitrary: m)
  case Nil
  show ?case by simp
next
  case (Cons a ts)
  have "fold (addTopic s) (a # ts) m t = fold (addTopic s) ts (addTopic s a m) t"
    by simp
  also have "\<dots> = (if t \<in> set ts
                   then Some (List.insert s (case addTopic s a m t of None \<Rightarrow> [] | Some ss \<Rightarrow> ss))
                   else addTopic s a m t)"
    by (rule Cons.IH)
  also have "\<dots> = (if t \<in> set (a # ts)
                   then Some (List.insert s (case m t of None \<Rightarrow> [] | Some ss \<Rightarrow> ss))
                   else m t)"
    by (auto simp: addTopic_lookup split: option.splits)
  finally show ?case .
qed

lemma subscribersFor_addSubscriber:
  "subscribersFor (snd (addSubscriber p (Some s))) t =
     (if t \<in> set (getSubscribedTopics s) then List.insert s (subscribersFor p t)
      else subscribersFor p t)"
  by (simp add: addSubscriber_def subscribersFor_def Let_def fold_addTopic_lookup)

lemma removeTopics_lookup_subset:
  "removeTopics s ts m = (r, m') \<Longrightarrow> m' t = Some ss' \<Longrightarrow>
     \<exists>ss. m t = Some ss \<and> set ss' \<subseteq> set ss"
proof (induction ts arbitrary: m)
  case Nil
  then show ?case by simp
next
  case (Cons a ts)
  show ?case
  proof (cases "m a")
    case None
    with Cons.prems show ?thesis by simp
  next
    case (Some xs)
    with Cons.prems have "removeTopics s ts (m(a \<mapsto> removeAll s xs)) = (r, m')" by simp
    from Cons.IH [OF this Cons.prems(2)]
    obtain ys where ys: "(m(a \<mapsto> removeAll s xs)) t = Some ys" "set ss' \<subseteq> set ys" by blast
    show ?thesis
    proof (cases "t = a")
      case True
      with ys Some show ?thesis by auto
    next
      case False
      with ys show ?thesis by auto
    qed
  qed
qed

lemma subscribersFor_removeSubscriber:
  "set (subscribersFor (snd (removeSubscriber p i)) t) \<subseteq> set (subscribersFor p t)"
proof (cases "map_of (subscribers p) i")
  case None
  then show ?thesis by (simp add: removeSubscriber_def)
next
  case (Some s)
  obtain r m' where rm: "removeTopics s (getSubscribedTopics s) (topicsToSubscribers p) = (r, m')"
    by (cases "removeTopics s (getSubscribedTopics s) (topicsToSubscribers p)")
  have eq: "topicsToSubscribers (snd (removeSubscriber p i)) = m'"
    using Some rm by (simp add: removeSubscriber_def Let_def split: option.splits)
  show ?thesis
  proof (cases "m' t")
    case None
    then show ?thesis by (simp add: subscribersFor_def eq)
  next
    case (Some ss')
    from removeTopics_lookup_subset [OF rm Some]
    show ?thesis using Some by (auto simp: subscribersFor_def eq)
  qed
qed

lemma subscribersFor_connect:
  "subscribersFor (snd (connect p)) t = subscribersFor p t"
  by (simp add: connect_def subscribersFor_def split: prod.splits option.splits)

text \<open>
  In every registry the publisher can be in, a subscriber object sits only in the sets
  of topics it declares.
\<close>

lemma reachable_index_topics:
  "reachable p \<Longrightarrow> s \<in> set (subscribersFor p t) \<Longrightarrow> t \<in> set (getSubscribedTopics s)"
proof (induction arbitrary: s t rule: reachable.induct)
  case init
  then show ?case by (simp add: subscribersFor_def CTPDataPublisher_init_def)
next
  case (add p sub)
  show ?case
  proof (cases sub)
    case None
    with add show ?thesis by (simp add: addSubscriber_def)
  next
    case (Some x)
    with add.prems add.IH show ?thesis
      by (auto simp: subscribersFor_addSubscriber split: if_splits)
  qed
next
  case (remove p subscriberId)
  then show ?case using subscribersFor_removeSubscriber by blast
next
  case (conn p)
  then show ?case by (simp add: subscribersFor_connect)
qed

text \<open>
  C1, as amended. After \<^verbatim>\<open>addSubscriber\<close> is called with a subscriber \<open>s\<close> on a
  registry the publisher can be in, the call returns the identifier \<open>nextId\<close>, the
  subscriber is stored under it, and the reverse-index lookup of a topic contains the
  subscriber object \<open>s\<close> itself (the sets hold subscriber objects, not identifiers)
  exactly when the topic is one \<open>s\<close> declares.
\<close>

theorem addSubscriber_reverse_index:
  assumes "reachable p" and "addSubscriber p (Some s) = (r, p')"
  shows "r = Inr (Some (nextId p)) \<and> map_of (subscribers p') (nextId p) = Some s
         \<and> (\<forall>t. s \<in> set (subscribersFor p' t) \<longleftrightarrow> t \<in> set (getSubscribedTopics s))"
proof -
  from assms(2) have r: "r = Inr (Some (nextId p))" and p': "p' = snd (addSubscriber p (Some s))"
    by (auto simp: addSubscriber_def Let_def)
  have stored: "map_of (subscribers p') (nextId p) = Some s"
    using assms(2) by (auto simp: addSubscriber_def Let_def update_conv')
  have idx: "s \<in> set (subscribersFor p' t) \<longleftrightarrow> t \<in> set (getSubscribedTopics s)" for t
    using reachable_index_topics [OF assms(1), of s t]
    by (auto simp: p' subscribersFor_addSubscriber)
  from r stored idx show ?thesis by blast
qed

theorem addSubscriber_reverse_index_witness:
  "fst (addSubscriber CTPDataPublisher_init
          (Some \<lparr>subscriberRef = 1, getSubscribedTopics = [''rb1910.XSHG'', ''cu1909.XSHG''],
                 getSubscribedDataFields = None\<rparr>)) = Inr (Some 1)
   \<and> \<lparr>subscriberRef = 1, getSubscribedTopics = [''rb1910.XSHG'', ''cu1909.XSHG''],
                 getSubscribedDataFields = None\<rparr>
      \<in> set (subscribersFor (snd (addSubscriber CTPDataPublisher_init
          (Some \<lparr>subscriberRef = 1, getSubscribedTopics = [''rb1910.XSHG'', ''cu1909.XSHG''],
                 getSubscribedDataFields = None\<rparr>))) ''cu1909.XSHG'')
   \<and> \<lparr>subscriberRef = 1, getSubscribedTopics = [''rb1910.XSHG'', ''cu1909.XSHG''],
                 getSubscribedDataFields = None\<rparr>
      \<notin> set (subscribersFor (snd (addSubscriber CTPDataPublisher_init
          (Some \<lparr>subscriberRef = 1, getSubscribedTopics = [''rb1910.XSHG'', ''cu1909.XSHG''],
                 getSubscribedDataFields = None\<rparr>))) ''IF1909.CCFX'')"
  using addSubscriber_reverse_index [OF reachable.init,
          of "\<lparr>subscriberRef = 1, getSubscribedTopics = [''rb1910.XSHG'', ''cu1909.XSHG''],
                 getSubscribedDataFields = None\<rparr>"
             "fst (addSubscriber CTPDataPublisher_init
          (Some \<lparr>subscriberRef = 1, getSubscribedTopics = [''rb1910.XSHG'', ''cu1909.XSHG''],
                 getSubscribedDataFields = None\<rparr>))"
             "snd (addSubscriber CTPDataPublisher_init
          (Some \<lparr>subscriberRef = 1, getSubscribedTopics = [''rb1910.XSHG'', ''cu1909.XSHG''],
                 getSubscribedDataFields = None\<rparr>))"]
  by (simp add: CTPDataPublisher_init_def)

text \<open>
  C1 as stated fails: the first subscriber registered gets the identifier \<open>1\<close>, and
  the lookup of its topic is the one-element set holding the subscriber object (whose
  own reference is \<open>7\<close>); the identifier is the key of \<^verbatim>\<open>self.subscribers\<close> only.
\<close>

theorem addSubscriber_index_holds_object:
  "fst (addSubscriber CTPDataPublisher_init
          (Some \<lparr>subscriberRef = 7, getSubscribedTopics = [''rb1910.XSHG''],
                 getSubscribedDataFields = None\<rparr>)) = Inr (Some 1)
   \<and> subscribersFor (snd (addSubscriber CTPDataPublisher_init
          (Some \<lparr>subscriberRef = 7, getSubscribedTopics = [''rb1910.XSHG''],
                 getSubscribedDataFields = None\<rparr>))) ''rb1910.XSHG''
       = [\<lparr>subscriberRef = 7, getSubscribedTopics = [''rb1910.XSHG''],
                 getSubscribedDataFields = None\<rparr>]
   \<and> map subscriberRef (subscribersFor (snd (addSubscriber CTPDataPublisher_init
          (Some \<lparr>subscriberRef = 7, getSubscribedTopics = [''rb1910.XSHG''],
                 getSubscribedDataFields = None\<rparr>))) ''rb1910.XSHG'') \<noteq> [1]"
  by (simp add: addSubscriber_def CTPDataPublisher_init_def subscribersFor_def addTopic_def Let_def)

text \<open>
  C5, as amended. \<^verbatim>\<open>addSubscriber\<close> called with \<^verbatim>\<open>None\<close> does not fail: it returns
  \<^verbatim>\<open>None\<close> as the identifier, and the publisher (the subscriber dictionary, the
  reverse index and the next identifier) is unchanged.
\<close>

theorem addSubscriber_None:
  "addSubscriber p None = (Inr None, p)"
  by (simp add: addSubscriber_def)

text \<open>C5 as stated fails: on the fresh publisher the call returns, it does not raise.\<close>

theorem addSubscriber_None_returns:
  "addSubscriber CTPDataPublisher_init None = (Inr None, CTPDataPublisher_init)
   \<and> \<not> isl (fst (addSubscriber CTPDataPublisher_init None))"
  by (simp add: addSubscriber_def)

section \<open>The fan-out\<close>

lemma count_list_distinct:
  "distinct xs \<Longrightarrow> count_list xs x = (if x \<in> set xs then 1 else 0)"
  by (induction xs) auto

lemma fold_union_set:
  "set (fold (\<lambda>k acc. List.union (f k) acc) ks acc0) = set acc0 \<union> (\<Union>k\<in>set ks. set (f k))"
  by (induction ks arbitrary: acc0) auto

lemma fold_union_distinct:
  "distinct acc0 \<Longrightarrow> distinct (fold (\<lambda>k acc. List.union (f k) acc) ks acc0)"
  by (induction ks arbitrary: acc0) auto

lemma notifyAll_receivers:
  "map fst (notifyAll p data) =
     fold (\<lambda>secId acc. List.union (subscribersFor p secId) acc) (remdups (map fst data)) []"
  by (simp add: notifyAll_def Let_def comp_def)

lemma notifyAll_payload: "c \<in> set (notifyAll p data) \<Longrightarrow> snd c = data"
  by (auto simp: notifyAll_def Let_def split: if_splits)

text \<open>
  C7. For a batch \<open>data\<close> and a registry the publisher can be in, \<^verbatim>\<open>notifyAll\<close>
  calls the delivery entry point of a subscriber exactly once when the subscriber is in
  the reverse-index set of at least one identifier keying the batch, and not at all
  otherwise; every call is given the whole batch; and a subscriber that declares no
  identifier keying the batch is not called.
\<close>

theorem notifyAll_fan_out:
  assumes "reachable p"
  shows "count_list (map fst (notifyAll p data)) s =
           (if \<exists>k \<in> fst ` set data. s \<in> set (subscribersFor p k) then 1 else 0)
         \<and> (\<forall>c \<in> set (notifyAll p data). snd c = data)
         \<and> (set (getSubscribedTopics s) \<inter> fst ` set data = {}
              \<longrightarrow> s \<notin> fst ` set (notifyAll p data))"
proof -
  let ?subs = "map fst (notifyAll p data)"
  have d: "distinct ?subs"
    unfolding notifyAll_receivers by (rule fold_union_distinct) simp
  have m: "set ?subs = (\<Union>k \<in> fst ` set data. set (subscribersFor p k))"
    unfolding notifyAll_receivers by (simp add: fold_union_set)
  have once: "count_list ?subs s =
           (if \<exists>k \<in> fst ` set data. s \<in> set (subscribersFor p k) then 1 else 0)"
    using count_list_distinct [OF d, of s] m by auto
  have payload: "\<forall>c \<in> set (notifyAll p data). snd c = data"
    using notifyAll_payload by blast
  have none: "s \<notin> fst ` set (notifyAll p data)"
    if "set (getSubscribedTopics s) \<inter> fst ` set data = {}"
  proof
    assume "s \<in> fst ` set (notifyAll p data)"
    then have "s \<in> set ?subs" by simp
    with m obtain k where k: "k \<in> fst ` set data" "s \<in> set (subscribersFor p k)" by auto
    from reachable_index_topics [OF assms k(2)] k(1) that show False by auto
  qed
  from once payload none show ?thesis by blast
qed

theorem notifyAll_fan_out_witness:
  "notifyAll
     (snd (addSubscriber (snd (addSubscriber CTPDataPublisher_init
        (Some \<lparr>subscriberRef = 1, getSubscribedTopics = [''rb1910.XSHG''],
           getSubscribedDataFields = None\<rparr>)))
        (Some \<lparr>subscriberRef = 2, getSubscribedTopics = [''cu1909.XSHG''],
           getSubscribedDataFields = None\<rparr>)))
     [(''rb1910.XSHG'', (3600 :: int))]
   = [(\<lparr>subscriberRef = 1, getSubscribedTopics = [''rb1910.XSHG''],
           getSubscribedDataFields = None\<rparr>, [(''rb1910.XSHG'', 3600)])]
   \<and> count_list (map fst (notifyAll
     (snd (addSubscriber (snd (addSubscriber CTPDataPublisher_init
        (Some \<lparr>subscriberRef = 1, getSubscribedTopics = [''rb1910.XSHG''],
           getSubscribedDataFields = None\<rparr>)))
        (Some \<lparr>subscriberRef = 2, getSubscribedTopics = [''cu1909.XSHG''],
           getSubscribedDataFields = None\<rparr>)))
     [(''rb1910.XSHG'', (3600 :: int))]))
       \<lparr>subscriberRef = 1, getSubscribedTopics = [''rb1910.XSHG''],
           getSubscribedDataFields = None\<rparr> = 1
   \<and> \<lparr>subscriberRef = 2, getSubscribedTopics = [''cu1909.XSHG''],
           getSubscribedDataFields = None\<rparr>
      \<notin> fst ` set (notifyAll
     (snd (addSubscriber (snd (addSubscriber CTPDataPublisher_init
        (Some \<lparr>subscriberRef = 1, getSubscribedTopics = [''rb1910.XSHG''],
           getSubscribedDataFields = None\<rparr>)))
        (Some \<lparr>subscriberRef = 2, getSubscribedTopics = [''cu1909.XSHG''],
           getSubscribedDataFields = None\<rparr>)))
     [(''rb1910.XSHG'', (3600 :: int))])"
proof -
  let ?A = "\<lparr>subscriberRef = 1, getSubscribedTopics = [''rb1910.XSHG''],
           getSubscribedDataFields = None\<rparr>"
  let ?B = "\<lparr>subscriberRef = 2, getSubscribedTopics = [''cu1909.XSHG''],
           getSubscribedDataFields = None\<rparr>"
  let ?p = "snd (addSubscriber (snd (addSubscriber CTPDataPublisher_init (Some ?A))) (Some ?B))"
  let ?data = "[(''rb1910.XSHG'', (3600 :: int))]"
  have r: "reachable ?p"
    by (intro reachable.add reachable.init)
  have run: "notifyAll ?p ?data = [(?A, ?data)]"
    by (simp add: notifyAll_def addSubscriber_def CTPDataPublisher_init_def subscribersFor_def
                  addTopic_def Let_def List.union_def List.insert_def)
  from notifyAll_fan_out [OF r, of ?data ?A] notifyAll_fan_out [OF r, of ?data ?B] run
  show ?thesis by simp
qed

section \<open>The receive loop\<close>

text \<open>The branch that logs the warning is never taken: no run of the loop logs one.\<close>

lemma receiveDatafeed_never_warns:
  "fst (snd (receiveDatafeed strptime float p msgs)) = []"
  by (induction msgs) (auto simp: Let_def split: list.splits option.splits prod.splits)

text \<open>A message that does not split into three fields ends the loop.\<close>

lemma receiveDatafeed_unpack_error:
  "length (split CHR '','' raw) \<noteq> 3 \<Longrightarrow>
     receiveDatafeed strptime float p (raw # rest) = ([], [], Terminated ValueError)"
  by (auto simp: Let_def split: list.splits)

text \<open>
  C2, on the code. The message \<open>bad,data\<close> ends the loop with \<^verbatim>\<open>ValueError\<close>:
  nothing is delivered, no warning is logged, and the messages after it are not read.
  With a subscriber registered for \<open>rb1910.XSHG\<close> and the publisher connected, a
  well-formed message for \<open>rb1910\<close> is delivered when it comes alone and is not
  delivered when it comes after \<open>bad,data\<close>.
\<close>

theorem receiveDatafeed_malformed_terminates:
  "receiveDatafeed strptime float p (''bad,data'' # rest) = ([], [], Terminated ValueError)
   \<and> receiveDatafeed (\<lambda>s. Some s) (\<lambda>s. Some s)
        (snd (connect (snd (addSubscriber CTPDataPublisher_init
           (Some \<lparr>subscriberRef = 1, getSubscribedTopics = [''rb1910.XSHG''],
                  getSubscribedDataFields = None\<rparr>)))))
        [''rb1910,20190801 09:00:00,3600.0'']
       = ([(\<lparr>subscriberRef = 1, getSubscribedTopics = [''rb1910.XSHG''],
                  getSubscribedDataFields = None\<rparr>,
            [(''rb1910.XSHG'', (''20190801 09:00:00'', ''3600.0''))])], [], Receiving)
   \<and> receiveDatafeed (\<lambda>s. Some s) (\<lambda>s. Some s)
        (snd (connect (snd (addSubscriber CTPDataPublisher_init
           (Some \<lparr>subscriberRef = 1, getSubscribedTopics = [''rb1910.XSHG''],
                  getSubscribedDataFields = None\<rparr>)))))
        [''bad,data'', ''rb1910,20190801 09:00:00,3600.0'']
       = ([], [], Terminated ValueError)"
  by (simp add: Let_def notifyAll_def subscribersFor_def addSubscriber_def connect_def
        CTPDataPublisher_init_def addTopic_def List.union_def List.insert_def
        getCtpInstId_def startswith_def lower_def lower_char_def)

section \<open>The summary of \<^verbatim>\<open>connect\<close>\<close>

lemma ctpTopics_returns:
  "\<forall>tt \<in> set ts. length (split CHR ''.'' tt) = 2 \<Longrightarrow> \<exists>m'. ctpTopics m ts = Inr m'"
proof (induction ts arbitrary: m)
  case Nil
  show ?case by simp
next
  case (Cons tt ts)
  from Cons.prems have "length (split CHR ''.'' tt) = 2" by simp
  then obtain k where "getCtpInstId tt = Inr k"
    using getCtpInstId_returns_iff by blast
  moreover from Cons.prems have "\<forall>tt \<in> set ts. length (split CHR ''.'' tt) = 2" by simp
  ultimately show ?case using Cons.IH by simp
qed

lemma connect_summarise_general:
  assumes "\<forall>s \<in> snd ` set subs. \<forall>tt \<in> set (getSubscribedTopics s). length (split CHR ''.'' tt) = 2"
  shows "\<exists>ids'. connect_summarise subs ids acc =
           (None, ids',
            case acc of
              None \<Rightarrow> None
            | Some a \<Rightarrow>
                if \<exists>s \<in> snd ` set subs. getSubscribedDataFields s = None then None
                else Some (a \<union> (\<Union>s \<in> snd ` set subs.
                       case getSubscribedDataFields s of Some fs \<Rightarrow> set fs | None \<Rightarrow> {})))"
  using assms
proof (induction subs arbitrary: ids acc)
  case Nil
  show ?case by (simp split: option.splits)
next
  case (Cons x subs)
  obtain i s where x: "x = (i, s)" by (cases x)
  from Cons.prems x have "\<forall>tt \<in> set (getSubscribedTopics s). length (split CHR ''.'' tt) = 2"
    by simp
  then obtain ct where ct: "ctpTopics Map.empty (getSubscribedTopics s) = Inr ct"
    using ctpTopics_returns by blast
  from Cons.prems have rest:
    "\<forall>s \<in> snd ` set subs. \<forall>tt \<in> set (getSubscribedTopics s). length (split CHR ''.'' tt) = 2"
    by simp
  let ?acc' = "case (getSubscribedDataFields s, acc) of
                 (Some fs, Some a) \<Rightarrow> Some (a \<union> set fs) | _ \<Rightarrow> None"
  have step: "connect_summarise (x # subs) ids acc = connect_summarise subs (ids ++ ct) ?acc'"
    using x ct by (simp add: Let_def)
  from Cons.IH [OF rest, of "ids ++ ct" ?acc']
  obtain ids' where ih: "connect_summarise subs (ids ++ ct) ?acc' =
           (None, ids',
            case ?acc' of
              None \<Rightarrow> None
            | Some a \<Rightarrow>
                if \<exists>s \<in> snd ` set subs. getSubscribedDataFields s = None then None
                else Some (a \<union> (\<Union>s \<in> snd ` set subs.
                       case getSubscribedDataFields s of Some fs \<Rightarrow> set fs | None \<Rightarrow> {})))"
    by blast
  show ?case
    unfolding step ih using x
    by (cases acc; cases "getSubscribedDataFields s") auto
qed

text \<open>
  C8, as amended. Let \<open>subs\<close> be the registered subscribers, all of whose topics
  split into two parts at the dot, and \<open>visited\<close> the order in which the loop visits
  them. The loop ends without exception, and the fields it leaves are \<^verbatim>\<open>None\<close> (all
  fields) when some subscriber returns \<^verbatim>\<open>None\<close> from \<^verbatim>\<open>getSubscribedDataFields\<close>,
  whatever the order and whatever the others return; otherwise they are the union of the
  collections returned, to which an empty collection adds nothing.
\<close>

theorem connect_summarise_fields:
  assumes "\<forall>s \<in> snd ` set subs. \<forall>tt \<in> set (getSubscribedTopics s). length (split CHR ''.'' tt) = 2"
    and "mset visited = mset subs"
  shows "\<exists>ids'. connect_summarise visited ids (Some {}) =
           (None, ids',
            if \<exists>s \<in> snd ` set subs. getSubscribedDataFields s = None then None
            else Some (\<Union>s \<in> snd ` set subs.
                   case getSubscribedDataFields s of Some fs \<Rightarrow> set fs | None \<Rightarrow> {}))"
proof -
  from assms(2) have eq: "set visited = set subs" by (rule mset_eq_setD)
  from assms(1) have
    "\<forall>s \<in> snd ` set visited. \<forall>tt \<in> set (getSubscribedTopics s). length (split CHR ''.'' tt) = 2"
    by (simp only: eq)
  from connect_summarise_general [OF this, of ids "Some {}"]
  show ?thesis by (simp only: option.case Un_empty_left eq)
qed

theorem connect_summarise_fields_witness:
  "(\<exists>ids'. connect_summarise
       [(2, \<lparr>subscriberRef = 2, getSubscribedTopics = [''cu1909.XSHG''],
              getSubscribedDataFields = None\<rparr>),
        (1, \<lparr>subscriberRef = 1, getSubscribedTopics = [''rb1910.XSHG''],
              getSubscribedDataFields = Some [''price'']\<rparr>)]
       Map.empty (Some {}) = (None, ids', None))
   \<and> (\<exists>ids'. connect_summarise
       [(1, \<lparr>subscriberRef = 1, getSubscribedTopics = [''rb1910.XSHG''],
              getSubscribedDataFields = Some [''price'']\<rparr>),
        (3, \<lparr>subscriberRef = 3, getSubscribedTopics = [''IF1909.CCFX''],
              getSubscribedDataFields = Some [''volume'', ''price'']\<rparr>)]
       Map.empty (Some {}) = (None, ids', Some {''price'', ''volume''}))"
proof -
  let ?s1 = "\<lparr>subscriberRef = 1, getSubscribedTopics = [''rb1910.XSHG''],
              getSubscribedDataFields = Some [''price'']\<rparr>"
  let ?s2 = "\<lparr>subscriberRef = 2, getSubscribedTopics = [''cu1909.XSHG''],
              getSubscribedDataFields = None\<rparr>"
  let ?s3 = "\<lparr>subscriberRef = 3, getSubscribedTopics = [''IF1909.CCFX''],
              getSubscribedDataFields = Some [''volume'', ''price'']\<rparr>"
  have wf12: "\<forall>s \<in> snd ` set [(1, ?s1), (2, ?s2)].
               \<forall>tt \<in> set (getSubscribedTopics s). length (split CHR ''.'' tt) = 2"
    by simp
  have perm: "mset [(2, ?s2), (1, ?s1)] = mset [(1 :: nat, ?s1), (2, ?s2)]"
    by simp
  have wf13: "\<forall>s \<in> snd ` set [(1, ?s1), (3, ?s3)].
               \<forall>tt \<in> set (getSubscribedTopics s). length (split CHR ''.'' tt) = 2"
    by simp
  have a: "\<exists>ids'. connect_summarise [(2, ?s2), (1, ?s1)] Map.empty (Some {}) = (None, ids', None)"
    using connect_summarise_fields [OF wf12 perm, of Map.empty] by simp
  have b: "\<exists>ids'. connect_summarise [(1, ?s1), (3, ?s3)] Map.empty (Some {})
             = (None, ids', Some {''price'', ''volume''})"
    using connect_summarise_fields [OF wf13 refl, of Map.empty] by (simp add: insert_commute)
  from a b show ?thesis by blast
qed

text \<open>
  C8 as stated fails for an empty filter: a subscriber whose field collection is empty
  does not make the summary all fields; with a second subscriber asking for \<open>price\<close>
  the summary is the one field \<open>price\<close>.
\<close>

theorem connect_empty_filter_not_all:
  "snd (snd (connect_summarise
       [(1, \<lparr>subscriberRef = 1, getSubscribedTopics = [''rb1910.XSHG''],
              getSubscribedDataFields = Some []\<rparr>),
        (2, \<lparr>subscriberRef = 2, getSubscribedTopics = [''cu1909.XSHG''],
              getSubscribedDataFields = Some [''price'']\<rparr>)]
       Map.empty (Some {}))) = Some {''price''}
   \<and> snd (snd (connect_summarise
       [(1, \<lparr>subscriberRef = 1, getSubscribedTopics = [''rb1910.XSHG''],
              getSubscribedDataFields = Some []\<rparr>),
        (2, \<lparr>subscriberRef = 2, getSubscribedTopics = [''cu1909.XSHG''],
              getSubscribedDataFields = Some [''price'']\<rparr>)]
       Map.empty (Some {}))) \<noteq> None"
  by (simp add: getCtpInstId_def Let_def)

section \<open>The execution engine\<close>

text \<open>\<^verbatim>\<open>placeOrder\<close> leaves \<^verbatim>\<open>executedOrders\<close> as it was: no order is ever entered.\<close>

lemma placeOrder_executedOrders:
  "executedOrders (fst (snd (placeOrder e ord))) = executedOrders e"
  by (simp add: placeOrder_def Let_def split: sum.splits)

lemma queryStatus_returns_None: "queryStatus e orderId = Inr None"
  by (simp add: queryStatus_def)

text \<open>
  C6, on the code. An order is placed on the fresh engine and gets the identifier
  \<open>1\<close>; \<^verbatim>\<open>queryStatus\<close> for that identifier returns \<^verbatim>\<open>None\<close>, not a status.
  For the identifier \<open>9\<close>, which was never submitted, it returns \<^verbatim>\<open>None\<close> too; it
  does not raise.
\<close>

theorem queryStatus_after_placeOrder:
  "fst (placeOrder CTPExecutionEngine_init
          \<lparr>secId = ''rb1910.XSGE'', side = BUY, volume = 1, price = 3600,
            priceType = LIMIT_ORDER, offset = OPEN\<rparr>)
     = Inr \<lparr>oid_instId = ''rb1910.XSGE'', oid_exchange = ''S'', oid_orderId = 1\<rparr>
   \<and> queryStatus
        (fst (snd (placeOrder CTPExecutionEngine_init
          \<lparr>secId = ''rb1910.XSGE'', side = BUY, volume = 1, price = 3600,
            priceType = LIMIT_ORDER, offset = OPEN\<rparr>)))
        \<lparr>oid_instId = ''rb1910.XSGE'', oid_exchange = ''S'', oid_orderId = 1\<rparr> = Inr None
   \<and> queryStatus CTPExecutionEngine_init
        \<lparr>oid_instId = ''rb1910.XSGE'', oid_exchange = ''S'', oid_orderId = 9\<rparr> = Inr None"
  by (simp add: queryStatus_def placeOrder_def convertToCtpOrder_def getCtpInstId_def
        getCtpExch_def CTPExecutionEngine_init_def Let_def)

lemma foldl_onOrderReturn: "foldl onOrderReturn e cbs = e"
  by (induction cbs) (simp_all add: onOrderReturn_def)


end
